theory Spec2Isabelle
  imports Complex_Main "HOL-Library.Sublist" "HOL-Library.Multiset"
begin

section \<open>Python strings and the regular-expression character classes\<close>

text \<open>
  The tools of \<^verbatim>\<open>src/tools\<close> work on Python \<^verbatim>\<open>str\<close> values. A string is modelled
  as a \<^typ>\<open>string\<close> of ASCII characters; the classes \<^verbatim>\<open>\w\<close>, \<^verbatim>\<open>\d\<close> and
  \<^verbatim>\<open>\s\<close> of the \<^verbatim>\<open>re\<close> module and the methods \<^verbatim>\<open>lower\<close>, \<^verbatim>\<open>upper\<close>,
  \<^verbatim>\<open>strip\<close> and \<^verbatim>\<open>split\<close> are given on that range. The scores are modelled as
  exact reals; where the rounding of Python's binary floating point changes a statement,
  the computation is given a second time on binary64 values. A definition carries the
  name of the Python function it follows, without the leading underscore.
\<close>

definition is_digit :: "char \<Rightarrow> bool" where
  "is_digit c = (c \<in> set ''0123456789'')"

definition is_word :: "char \<Rightarrow> bool" where
  "is_word c = (c \<in> set ''abcdefghijklmnopqrstuvwxyzABCDEFGHIJKLMNOPQRSTUVWXYZ0123456789_'')"

definition is_space :: "char \<Rightarrow> bool" where
  "is_space c = (c \<in> set [CHR 0x20, CHR 0x09, CHR 0x0A, CHR 0x0B, CHR 0x0C, CHR 0x0D,
                            CHR 0x1C, CHR 0x1D, CHR 0x1E, CHR 0x1F])"

definition lower_char :: "char \<Rightarrow> char" where
  "lower_char c =
     (case map_of (zip ''ABCDEFGHIJKLMNOPQRSTUVWXYZ'' ''abcdefghijklmnopqrstuvwxyz'') c of
        Some d \<Rightarrow> d | None \<Rightarrow> c)"

definition upper_char :: "char \<Rightarrow> char" where
  "upper_char c =
     (case map_of (zip ''abcdefghijklmnopqrstuvwxyz'' ''ABCDEFGHIJKLMNOPQRSTUVWXYZ'') c of
        Some d \<Rightarrow> d | None \<Rightarrow> c)"

definition lower :: "string \<Rightarrow> string" where
  "lower s = map lower_char s"

definition upper :: "string \<Rightarrow> string" where
  "upper s = map upper_char s"

definition strip :: "string \<Rightarrow> string" where
  "strip s = rev (dropWhile is_space (rev (dropWhile is_space s)))"

text \<open>\<^verbatim>\<open>sub in s\<close> on strings: \<^verbatim>\<open>sub\<close> occurs in \<^verbatim>\<open>s\<close> as a contiguous substring.\<close>

fun py_in :: "string \<Rightarrow> string \<Rightarrow> bool" where
  "py_in sub [] = (sub = [])"
| "py_in sub (c # cs) = (prefix sub (c # cs) \<or> py_in sub cs)"

text \<open>
  The maximal runs of characters satisfying \<open>P\<close>, from left to right.
  \<^verbatim>\<open>re.findall(r'\b\w+\b', s)\<close> is \<open>runs is_word s\<close>: a match starts at a word
  boundary, the greedy \<^verbatim>\<open>\w+\<close> takes the whole run and the scan resumes behind it.
  \<^verbatim>\<open>s.split()\<close> is the list of the maximal runs of non-whitespace characters.
\<close>

function runs :: "(char \<Rightarrow> bool) \<Rightarrow> string \<Rightarrow> string list" where
  "runs P [] = []"
| "runs P (c # cs) =
     (if P c then (c # takeWhile P cs) # runs P (dropWhile P cs) else runs P cs)"
  by pat_completeness auto
termination
  by (relation "measure (\<lambda>(P, s). length s)") (auto simp: length_dropWhile_le less_Suc_eq_le)

definition findall_words :: "string \<Rightarrow> string list" where
  "findall_words s = runs is_word s"

definition split_ws :: "string \<Rightarrow> string list" where
  "split_ws s = runs (\<lambda>c. \<not> is_space c) s"

datatype py_error = ZeroDivisionError

section \<open>The fact checker (\<^verbatim>\<open>src/tools/fact_checker_tool.py\<close>)\<close>

record verification =
  claim_number :: nat
  claim :: string
  confidence_score :: real
  verification_status :: string
  supporting_evidence :: "string list"
  contradicting_evidence :: "string list"
  analysis :: string

text \<open>
  The local \<^verbatim>\<open>keyword_overlap\<close> of \<^verbatim>\<open>_verify_claim_against_sources\<close>. The Python
  set \<^verbatim>\<open>claim_keywords\<close> is the duplicate-free list of the claim's tokens; only its
  size and the size of its filtered copy are read.
\<close>

definition keyword_overlap :: "string \<Rightarrow> string \<Rightarrow> real" where
  "keyword_overlap claim_text sources =
     (let claim_keywords = remdups (findall_words (lower claim_text));
          source_text = lower sources;
          matching_keywords = filter (\<lambda>kw. py_in kw source_text) claim_keywords
      in if claim_keywords \<noteq> []
         then real (length matching_keywords) / real (length claim_keywords)
         else 0)"

text \<open>
  The \<^verbatim>\<open>if/elif/else\<close> chain of \<^verbatim>\<open>_verify_claim_against_sources\<close>: the status, the
  confidence and the analysis text written for an overlap.
\<close>

definition classify_overlap :: "real \<Rightarrow> string \<times> real \<times> string" where
  "classify_overlap r =
     (if r \<ge> 0.7 then
        (''strongly_supported'', 0.9,
         ''High keyword overlap with sources suggests strong support'')
      else if r \<ge> 0.4 then
        (''partially_supported'', 0.6,
         ''Moderate keyword overlap suggests partial support'')
      else
        (''insufficient_evidence'', 0.3,
         ''Low keyword overlap suggests insufficient supporting evidence''))"

definition verify_claim_against_sources :: "string \<Rightarrow> string \<Rightarrow> nat \<Rightarrow> verification" where
  "verify_claim_against_sources claim_text sources n =
     (case classify_overlap (keyword_overlap claim_text sources) of
        (status, confidence, text) \<Rightarrow>
          \<lparr>claim_number = n, claim = claim_text, confidence_score = confidence,
           verification_status = status, supporting_evidence = [],
           contradicting_evidence = [], analysis = text\<rparr>)"

record fact_check_results =
  total_claims :: nat
  verification_results :: "verification list"
  overall_reliability :: real

text \<open>
  The loop of \<^verbatim>\<open>fact_checker\<close> over \<^verbatim>\<open>enumerate(claim_list)\<close>: the state is the list of
  verifications so far and \<^verbatim>\<open>total_confidence\<close>.
\<close>

fun verify_loop ::
  "string \<Rightarrow> nat \<Rightarrow> string list \<Rightarrow> verification list \<times> real \<Rightarrow> verification list \<times> real" where
  "verify_loop sources idx [] st = st"
| "verify_loop sources idx (c # cs) (results, total_confidence) =
     (let v = verify_claim_against_sources c sources (idx + 1)
      in verify_loop sources (idx + 1) cs (results @ [v], total_confidence + confidence_score v))"

text \<open>
  \<^verbatim>\<open>fact_checker\<close> from the parsed \<^verbatim>\<open>claim_list\<close> on: \<^verbatim>\<open>overall_reliability\<close> starts
  as \<^verbatim>\<open>0.0\<close> and is overwritten only when the list is not empty.
\<close>

definition fact_checker :: "string list \<Rightarrow> string \<Rightarrow> fact_check_results" where
  "fact_checker claim_list sources =
     (case verify_loop sources 0 claim_list ([], 0) of
        (results, total_confidence) \<Rightarrow>
          \<lparr>total_claims = length claim_list,
           verification_results = results,
           overall_reliability =
             (if length claim_list > 0 then total_confidence / real (length claim_list) else 0)\<rparr>)"

section \<open>The citation validator (\<^verbatim>\<open>src/tools/citation_validator_tool.py\<close>)\<close>

subsection \<open>\<^verbatim>\<open>re.findall\<close>\<close>

text \<open>
  \<^verbatim>\<open>re.findall\<close> scans the string from left to right. A pattern is given by its
  matcher: at a position, with the character before it (\<open>None\<close> at the start of the
  string) and the rest of the string, the matcher returns the value \<^verbatim>\<open>findall\<close>
  reports for the match there (the group when the pattern has one, the whole match
  otherwise) and the number of characters the match consumes, or \<open>None\<close>. After a match
  the scan resumes behind it, otherwise one character further. No pattern of this module
  matches the empty string.
\<close>

function findall ::
  "(char option \<Rightarrow> string \<Rightarrow> (string \<times> nat) option) \<Rightarrow> char option \<Rightarrow> string \<Rightarrow> string list" where
  "findall m prev [] = []"
| "findall m prev (c # cs) =
     (case m prev (c # cs) of
        None \<Rightarrow> findall m (Some c) cs
      | Some (g, n) \<Rightarrow> g # findall m (Some (last (c # take (n - 1) cs))) (drop (n - 1) cs))"
  by pat_completeness auto
termination
  by (relation "measure (\<lambda>(m, prev, s). length s)") auto

text \<open>\<^verbatim>\<open>\b\<close>: exactly one of the two neighbours is a word character.\<close>

definition word_boundary :: "char option \<Rightarrow> char option \<Rightarrow> bool" where
  "word_boundary prev_char next_char =
     ((case prev_char of None \<Rightarrow> False | Some c \<Rightarrow> is_word c) \<noteq>
      (case next_char of None \<Rightarrow> False | Some c \<Rightarrow> is_word c))"

text \<open>\<^verbatim>\<open>https?://[^\s<>"{}|\\^`\[\]]+\<close>\<close>

definition url_char :: "char \<Rightarrow> bool" where
  "url_char c =
     (\<not> is_space c \<and>
      c \<notin> set [CHR ''<'', CHR ''>'', CHR 0x22, CHR ''{'', CHR ''}'', CHR ''|'', CHR 0x5C,
                 CHR ''^'', CHR 0x60, CHR ''['', CHR '']''])"

definition url_match :: "char option \<Rightarrow> string \<Rightarrow> (string \<times> nat) option" where
  "url_match prev s =
     (if prefix ''https://'' s \<and> takeWhile url_char (drop 8 s) \<noteq> [] then
        Some (''https://'' @ takeWhile url_char (drop 8 s),
              8 + length (takeWhile url_char (drop 8 s)))
      else if prefix ''http://'' s \<and> takeWhile url_char (drop 7 s) \<noteq> [] then
        Some (''http://'' @ takeWhile url_char (drop 7 s),
              7 + length (takeWhile url_char (drop 7 s)))
      else None)"

text \<open>
  \<^verbatim>\<open>\b(19|20)\d{2}\b\<close>: the pattern has one group, so \<^verbatim>\<open>findall\<close> reports the
  text of the group, the two characters \<^verbatim>\<open>19\<close> or \<^verbatim>\<open>20\<close>.
\<close>

definition year_match :: "char option \<Rightarrow> string \<Rightarrow> (string \<times> nat) option" where
  "year_match prev s =
     (case s of
        a # b # c # d # rest \<Rightarrow>
          if word_boundary prev (Some a) \<and> ([a, b] = ''19'' \<or> [a, b] = ''20'') \<and>
             is_digit c \<and> is_digit d \<and>
             word_boundary (Some d) (case rest of [] \<Rightarrow> None | e # _ \<Rightarrow> Some e)
          then Some ([a, b], 4) else None
      | _ \<Rightarrow> None)"

text \<open>\<^verbatim>\<open>10\.\d{4,}/[^\s]+\<close>\<close>

definition doi_match :: "char option \<Rightarrow> string \<Rightarrow> (string \<times> nat) option" where
  "doi_match prev s =
     (if prefix ''10.'' s then
        (let digits = takeWhile is_digit (drop 3 s)
         in case drop (3 + length digits) s of
              [] \<Rightarrow> None
            | c # t \<Rightarrow>
                (let suffix_text = takeWhile (\<lambda>x. \<not> is_space x) t
                 in if 4 \<le> length digits \<and> c = CHR ''/'' \<and> suffix_text \<noteq> []
                    then Some (''10.'' @ digits @ ''/'' @ suffix_text,
                               3 + length digits + 1 + length suffix_text)
                    else None))
      else None)"

text \<open>
  \<^verbatim>\<open>[D]([^D]+)[D]\<close> for a set \<open>D\<close> of delimiters: the patterns \<^verbatim>\<open>"([^"]+)"\<close>,
  \<^verbatim>\<open>\*([^*]+)\*\<close> and \<^verbatim>\<open>_([^_]+)_\<close>, and the second title pattern, whose three
  characters in each class are the ASCII double quote in the source file.
\<close>

definition enclosed_match :: "char list \<Rightarrow> char option \<Rightarrow> string \<Rightarrow> (string \<times> nat) option" where
  "enclosed_match delims prev s =
     (case s of
        [] \<Rightarrow> None
      | c # t \<Rightarrow>
          (let body = takeWhile (\<lambda>x. x \<notin> set delims) t
           in if c \<in> set delims \<and> body \<noteq> [] \<and> length body < length t
              then Some (body, length body + 2) else None))"

text \<open>
  \<^verbatim>\<open>([^.]+?)\s*\(YEAR\)\<close>, where \<^verbatim>\<open>YEAR\<close> is the text stored under \<^verbatim>\<open>year\<close>
  (digits only, so it stands for itself in the pattern). The group is lazy: it grows one
  character at a time, never over a full stop, until the rest of the pattern matches.
\<close>

definition author_tail :: "string \<Rightarrow> string \<Rightarrow> nat option" where
  "author_tail year rest =
     (if prefix (''('' @ year @ '')'') (dropWhile is_space rest)
      then Some (length (takeWhile is_space rest) + length year + 2) else None)"

fun author_lazy :: "string \<Rightarrow> string \<Rightarrow> string \<Rightarrow> (string \<times> nat) option" where
  "author_lazy year acc [] = None"
| "author_lazy year acc (c # cs) =
     (case (if acc = [] then None else author_tail year (c # cs)) of
        Some n \<Rightarrow> Some (acc, length acc + n)
      | None \<Rightarrow> if c = CHR ''.'' then None else author_lazy year (acc @ [c]) cs)"

definition author_match :: "string \<Rightarrow> char option \<Rightarrow> string \<Rightarrow> (string \<times> nat) option" where
  "author_match year prev s = author_lazy year [] s"

subsection \<open>Component extraction\<close>

type_synonym components = "string \<rightharpoonup> string"

text \<open>The truth value of \<^verbatim>\<open>components.get(k)\<close>: the key is there and its text is not empty.\<close>

definition has_component :: "components \<Rightarrow> string \<Rightarrow> bool" where
  "has_component components k = (case components k of None \<Rightarrow> False | Some v \<Rightarrow> v \<noteq> [])"

text \<open>The \<^verbatim>\<open>for pattern in ...: if matches: ...; break\<close> loops over delimiter patterns.\<close>

fun first_enclosed :: "char list list \<Rightarrow> string \<Rightarrow> string option" where
  "first_enclosed [] citation = None"
| "first_enclosed (p # ps) citation =
     (case findall (enclosed_match p) None citation of
        [] \<Rightarrow> first_enclosed ps citation
      | t # _ \<Rightarrow> Some t)"

definition extract_citation_components :: "string \<Rightarrow> components" where
  "extract_citation_components citation =
     (let components = Map.empty;
          urls = findall url_match None citation;
          components = (case urls of [] \<Rightarrow> components | u # _ \<Rightarrow> components(''url'' \<mapsto> u));
          years = findall year_match None citation;
          components = (if years \<noteq> [] then components(''year'' \<mapsto> last years) else components);
          dois = findall doi_match None citation;
          components = (case dois of [] \<Rightarrow> components | d # _ \<Rightarrow> components(''doi'' \<mapsto> d));
          title_patterns = [[CHR 0x22], [CHR 0x22, CHR 0x22, CHR 0x22]];
          components = (case first_enclosed title_patterns citation of
                          None \<Rightarrow> components | Some t \<Rightarrow> components(''title'' \<mapsto> t));
          components =
            (if has_component components ''year'' then
               (case components ''year'' of
                  None \<Rightarrow> components
                | Some y \<Rightarrow>
                    (case findall (author_match y) None citation of
                       [] \<Rightarrow> components
                     | a # _ \<Rightarrow> components(''author'' \<mapsto> strip a)))
             else components);
          journal_patterns = [[CHR ''*''], [CHR ''_'']];
          components = (case first_enclosed journal_patterns citation of
                          None \<Rightarrow> components | Some j \<Rightarrow> components(''journal'' \<mapsto> j))
      in components)"

subsection \<open>Scoring\<close>

definition get_required_components :: "string \<Rightarrow> string list" where
  "get_required_components style =
     (let common_required = [''author'', ''title'', ''year''];
          style_requirements =
            [(''APA'', common_required @ [''source'']),
             (''MLA'', common_required @ [''source'']),
             (''Chicago'', common_required @ [''source''])]
      in case map_of style_requirements (upper style) of
           Some required \<Rightarrow> required
         | None \<Rightarrow> common_required)"

text \<open>
  The outcome of \<^verbatim>\<open>_validate_url_accessibility\<close>, a network request: the fields that
  \<^verbatim>\<open>_validate_single_citation\<close> reads, \<^verbatim>\<open>error\<close> as the text the issue line shows.
\<close>

record url_validation =
  checked_url :: string
  is_accessible :: bool
  error :: string

text \<open>
  The dictionary \<^verbatim>\<open>validation_result\<close>, without \<^verbatim>\<open>formatted_citation\<close>, which no
  score depends on.
\<close>

record validation_result =
  citation_number :: nat
  original_citation :: string
  is_valid :: bool
  quality_score :: real
  issues :: "string list"
  strengths :: "string list"
  metadata :: components
  url_check :: "url_validation option"

fun validate_loop ::
  "components \<Rightarrow> nat \<Rightarrow> string list \<Rightarrow> real \<times> validation_result \<Rightarrow> real \<times> validation_result" where
  "validate_loop components total_required [] st = st"
| "validate_loop components total_required (component # rest) (score, vr) =
     (if has_component components component
      then validate_loop components total_required rest
             (score + 1 / real total_required,
              vr\<lparr>strengths := strengths vr @ [''Has '' @ component]\<rparr>)
      else validate_loop components total_required rest
             (score, vr\<lparr>issues := issues vr @ [''Missing '' @ component]\<rparr>))"

definition validate_components ::
  "components \<Rightarrow> string list \<Rightarrow> validation_result \<Rightarrow> real \<times> validation_result" where
  "validate_components components required vr0 =
     (case validate_loop components (length required) required (0, vr0) of
        (score1, vr1) \<Rightarrow>
          (case (if has_component components ''doi''
                 then (score1 + 0.1, vr1\<lparr>strengths := strengths vr1 @ [''Includes DOI'']\<rparr>)
                 else (score1, vr1)) of
             (score2, vr2) \<Rightarrow>
               (if has_component components ''url''
                then (score2 + 0.05, vr2\<lparr>strengths := strengths vr2 @ [''Includes URL'']\<rparr>)
                else (score2, vr2))))"

text \<open>
  \<^verbatim>\<open>_validate_single_citation\<close>; \<open>check_url\<close> stands for
  \<^verbatim>\<open>_validate_url_accessibility\<close>, whose answer comes from the network.
\<close>

definition validate_single_citation ::
  "(string \<Rightarrow> url_validation) \<Rightarrow> string \<Rightarrow> string \<Rightarrow> nat \<Rightarrow> validation_result" where
  "validate_single_citation check_url citation style n =
     (let vr0 = \<lparr>citation_number = n, original_citation = citation, is_valid = False,
                 quality_score = 0, issues = [], strengths = [], metadata = Map.empty,
                 url_check = None\<rparr>;
          components = extract_citation_components citation;
          vr1 = vr0\<lparr>metadata := components\<rparr>;
          required_components = get_required_components style
      in case validate_components components required_components vr1 of
           (component_score, vr2) \<Rightarrow>
             (case (if has_component components ''url'' then
                      (case components ''url'' of
                         None \<Rightarrow> (component_score, vr2)
                       | Some u \<Rightarrow>
                           (let uv = check_url u;
                                vr3 = vr2\<lparr>url_check := Some uv\<rparr>
                            in if is_accessible uv
                               then (component_score + 0.1,
                                     vr3\<lparr>strengths := strengths vr3 @ [''URL is accessible'']\<rparr>)
                               else (component_score,
                                     vr3\<lparr>issues := issues vr3 @
                                            [''URL not accessible: '' @ error uv]\<rparr>)))
                    else (component_score, vr2)) of
                (final_score, vr4) \<Rightarrow>
                  (let vr5 = vr4\<lparr>quality_score := min final_score 1\<rparr>
                   in vr5\<lparr>is_valid := (quality_score vr5 \<ge> 0.7)\<rparr>)))"

definition calculate_overall_quality :: "validation_result list \<Rightarrow> real" where
  "calculate_overall_quality validated_citations =
     (if validated_citations = [] then 0
      else sum_list (map quality_score validated_citations) / real (length validated_citations))"

section \<open>The search tool (\<^verbatim>\<open>src/tools/search_tool.py\<close>)\<close>

text \<open>A hit of the search backend is a dictionary; \<^verbatim>\<open>result.get(k, "")\<close> reads it.\<close>

type_synonym raw_result = "string \<rightharpoonup> string"

definition get_str :: "raw_result \<Rightarrow> string \<Rightarrow> string" where
  "get_str result k = (case result k of None \<Rightarrow> [] | Some v \<Rightarrow> v)"

text \<open>
  \<^verbatim>\<open>_calculate_relevance\<close>. The Python set \<^verbatim>\<open>query_terms\<close> is the duplicate-free
  list of the terms; the division by its size raises \<^verbatim>\<open>ZeroDivisionError\<close> when it
  is empty.
\<close>

definition calculate_relevance :: "string \<Rightarrow> raw_result \<Rightarrow> py_error + real" where
  "calculate_relevance query result =
     (let query_terms = remdups (split_ws (lower query));
          title_text = lower (get_str result ''title'');
          body_text = lower (get_str result ''body'');
          title_matches = length (filter (\<lambda>term. py_in term title_text) query_terms);
          body_matches = length (filter (\<lambda>term. py_in term body_text) query_terms)
      in if length query_terms = 0 then Inl ZeroDivisionError
         else Inr (min ((real title_matches * 0.7 + real body_matches * 0.3)
                          / real (length query_terms)) 1))"

text \<open>
  The method \<^verbatim>\<open>AdvancedWebSearchTool._calculate_relevance\<close> of \<^verbatim>\<open>main.py\<close>, the
  same computation behind a test of \<^verbatim>\<open>query_terms\<close>.
\<close>

definition AdvancedWebSearchTool_calculate_relevance :: "string \<Rightarrow> raw_result \<Rightarrow> py_error + real" where
  "AdvancedWebSearchTool_calculate_relevance query result =
     (let query_terms = remdups (split_ws (lower query));
          title_text = lower (get_str result ''title'');
          body_text = lower (get_str result ''body'');
          title_matches = length (filter (\<lambda>term. py_in term title_text) query_terms);
          body_matches = length (filter (\<lambda>term. py_in term body_text) query_terms)
      in if query_terms = [] then Inr 0.5
         else if length query_terms = 0 then Inl ZeroDivisionError
         else Inr (min ((real title_matches * 0.7 + real body_matches * 0.3)
                          / real (length query_terms)) 1))"

definition assess_content_quality :: "raw_result \<Rightarrow> real" where
  "assess_content_quality result =
     (let title_text = get_str result ''title'';
          body_text = get_str result ''body'';
          url_text = get_str result ''href'';
          quality1 = 0.5;
          quality2 = (if length body_text > 100 then quality1 + 0.2 else quality1);
          quality3 = (if length title_text > 20 then quality2 + 0.1 else quality2);
          quality4 =
            (if list_ex (\<lambda>domain. py_in domain url_text) [''.edu'', ''.gov'', ''.org'']
             then quality3 + 0.3
             else if list_ex (\<lambda>domain. py_in domain url_text) [''wikipedia'', ''arxiv'', ''scholar'']
             then quality3 + 0.2
             else quality3)
      in min quality4 1)"

definition identify_source_type :: "string \<Rightarrow> string" where
  "identify_source_type url_text =
     (if py_in ''.edu'' url_text then ''academic''
      else if py_in ''.gov'' url_text then ''government''
      else if py_in ''.org'' url_text then ''organization''
      else if py_in ''wikipedia'' url_text then ''encyclopedia''
      else if py_in ''arxiv'' url_text then ''preprint''
      else if list_ex (\<lambda>news. py_in news url_text) [''bbc'', ''cnn'', ''reuters'', ''ap'', ''news'']
      then ''news''
      else ''general'')"

record processed_result =
  title :: string
  snippet :: string
  url :: string
  relevance_score :: real
  content_quality :: real
  source_type :: string

text \<open>
  The loop of \<^verbatim>\<open>advanced_web_search\<close> that builds \<^verbatim>\<open>results\<close>; an exception of
  \<^verbatim>\<open>_calculate_relevance\<close> leaves the loop and reaches the \<^verbatim>\<open>except\<close> clause.
\<close>

fun process_results :: "string \<Rightarrow> raw_result list \<Rightarrow> py_error + processed_result list" where
  "process_results query [] = Inr []"
| "process_results query (result # others) =
     (case calculate_relevance query result of
        Inl e \<Rightarrow> Inl e
      | Inr relevance \<Rightarrow>
          (case process_results query others of
             Inl e \<Rightarrow> Inl e
           | Inr rest \<Rightarrow>
               Inr (\<lparr>title = get_str result ''title'', snippet = get_str result ''body'',
                     url = get_str result ''href'', relevance_score = relevance,
                     content_quality = assess_content_quality result,
                     source_type = identify_source_type (get_str result ''href'')\<rparr> # rest)))"

text \<open>
  \<^verbatim>\<open>results.sort(key=lambda x: (x["relevance_score"] + x["content_quality"]) / 2,
  reverse=True)\<close>. Python's \<^verbatim>\<open>list.sort\<close> is stable, also with \<^verbatim>\<open>reverse=True\<close>:
  it is the stable sort into descending order of the key, here the stable ascending sort
  on the negated key.
\<close>

definition combined_score :: "processed_result \<Rightarrow> real" where
  "combined_score x = (relevance_score x + content_quality x) / 2"

definition sort_results :: "processed_result list \<Rightarrow> processed_result list" where
  "sort_results results = sort_key (\<lambda>x. - combined_score x) results"

text \<open>The slice \<^verbatim>\<open>xs[:n]\<close> for an integer \<open>n\<close>; a negative \<open>n\<close> counts from the end.\<close>

definition slice_to :: "'a list \<Rightarrow> int \<Rightarrow> 'a list" where
  "slice_to xs n = (if n \<ge> 0 then take (nat n) xs else take (length xs - nat (- n)) xs)"

text \<open>
  \<^verbatim>\<open>advanced_web_search\<close> from the answer \<open>search_results\<close> of the search backend on:
  the ranked results, or the error that the \<^verbatim>\<open>except\<close> clause reports.
\<close>

definition advanced_web_search ::
  "string \<Rightarrow> int \<Rightarrow> raw_result list \<Rightarrow> py_error + processed_result list" where
  "advanced_web_search query max_results search_results =
     (case process_results query (slice_to search_results max_results) of
        Inl e \<Rightarrow> Inl e
      | Inr results \<Rightarrow> Inr (sort_results results))"

section \<open>Binary floating point\<close>








section \<open>The overlap ratio in the words of the specification\<close>

text \<open>
  Section 4.2 of the specification words the overlap ratio with the tokens of the source
  text: the size of the intersection of the claim's token set with the token set of the
  lower-cased source text, over the number of distinct claim tokens, and \<open>0\<close> for a claim
  without tokens. This definition follows those words, for comparison with
  \<^const>\<open>keyword_overlap\<close>, which follows the code.
\<close>

definition overlap_ratio_spec :: "string \<Rightarrow> string \<Rightarrow> real" where
  "overlap_ratio_spec claim_text source_text =
     (let claim_tokens = set (findall_words (lower claim_text));
          source_tokens = set (findall_words (lower source_text))
      in if claim_tokens = {} then 0
         else real (card (claim_tokens \<inter> source_tokens)) / real (card claim_tokens))"

text \<open>
  A check of a URL that answers as the \<^verbatim>\<open>ConnectionError\<close> branch of
  \<^verbatim>\<open>_validate_url_accessibility\<close> does, for evaluations that need a concrete check.
\<close>

definition connection_failed :: "string \<Rightarrow> url_validation" where
  "connection_failed u = \<lparr>checked_url = u, is_accessible = False, error = ''Connection failed''\<rparr>"

section \<open>Properties of the citation validator\<close>

subsection \<open>Which keys the extraction writes\<close>

lemma keep_list:
  "k \<noteq> k' \<Longrightarrow> P (m k) \<Longrightarrow> P ((case xs of [] \<Rightarrow> m | x # ys \<Rightarrow> m(k' \<mapsto> g x)) k)"
  by (cases xs) simp_all

lemma keep_option:
  "k \<noteq> k' \<Longrightarrow> P (m k) \<Longrightarrow> P ((case v of None \<Rightarrow> m | Some x \<Rightarrow> m(k' \<mapsto> g x)) k)"
  by (cases v) simp_all

lemma keep_if:
  "k \<noteq> k' \<Longrightarrow> P (m k) \<Longrightarrow> P ((if b then m(k' \<mapsto> x) else m) k)"
  by simp

lemma keep_author:
  "k \<noteq> k' \<Longrightarrow> P (m k) \<Longrightarrow>
   P ((if b then (case v of None \<Rightarrow> m
                  | Some y \<Rightarrow> (case f y of [] \<Rightarrow> m | a # as \<Rightarrow> m(k' \<mapsto> g a)))
       else m) k)"
  by (simp split: option.split list.split)

text \<open>No step of the extraction stores anything under the key \<^verbatim>\<open>source\<close>.\<close>

lemma source_never_extracted: "extract_citation_components citation ''source'' = None"
  unfolding extract_citation_components_def Let_def
  by (intro keep_list [where P = "\<lambda>v. v = None"] keep_option [where P = "\<lambda>v. v = None"]
        keep_if [where P = "\<lambda>v. v = None"] keep_author [where P = "\<lambda>v. v = None"]) simp_all

lemma not_has_source: "\<not> has_component (extract_citation_components citation) ''source''"
  by (simp add: has_component_def source_never_extracted)

text \<open>Every match of the year pattern is reported as the text of its group.\<close>

lemma year_match_group: "year_match prev s = Some (g, n) \<Longrightarrow> g = ''19'' \<or> g = ''20''"
  by (auto simp: year_match_def split: list.splits if_splits)

lemma findall_year_groups:
  "y \<in> set (findall year_match prev s) \<Longrightarrow> y = ''19'' \<or> y = ''20''"
proof (induction year_match prev s rule: findall.induct)
  case (1 prev)
  then show ?case by simp
next
  case (2 prev c cs)
  show ?case
  proof (cases "year_match prev (c # cs)")
    case None
    with 2 show ?thesis by simp
  next
    case (Some a)
    obtain g n where a: "a = (g, n)" by (cases a)
    with Some 2 show ?thesis
      using year_match_group [of prev "c # cs" g n] by auto
  qed
qed

text \<open>
  Whatever the citation, the text stored under \<^verbatim>\<open>year\<close> is one of the two-character
  strings \<^verbatim>\<open>19\<close> and \<^verbatim>\<open>20\<close>: it is never a four-character substring of the input.
\<close>

lemma year_two_characters:
  "extract_citation_components citation ''year'' \<in> {None, Some ''19'', Some ''20''}"
proof -
  let ?years = "findall year_match None citation"
  let ?P = "\<lambda>v. v \<in> {None, Some ''19'', Some ''20''}"
  have base: "?P ((if ?years \<noteq> [] then m(''year'' \<mapsto> last ?years) else m) ''year'')"
    if "m ''year'' = None" for m :: components
    using that findall_year_groups [of "last ?years" None citation] by auto
  show ?thesis
    unfolding extract_citation_components_def Let_def
    apply (rule keep_option [where P = ?P], simp)
    apply (rule keep_author [where P = ?P], simp)
    apply (rule keep_option [where P = ?P], simp)
    apply (rule keep_list [where P = ?P], simp)
    apply (rule base)
    apply (rule keep_list [where P = "\<lambda>v. v = None"], simp)
    apply simp
    done
qed

lemma required_APA:
  "get_required_components ''APA'' = [''author'', ''title'', ''year'', ''source'']"
  by code_simp

subsection \<open>The year field\<close>

text \<open>
  C1. The claim: for every citation string the year field is the last four-digit substring
  in the range 1900 to 2099, as an exact four-character substring of the input, so that
  a citation containing \<^verbatim>\<open>Vol. 12 (2020)\<close> yields \<^verbatim>\<open>2020\<close>. The code stores the text
  of the pattern's group instead: on \<^verbatim>\<open>Vol. 12 (2020)\<close> the year field is the
  two-character string \<^verbatim>\<open>20\<close>, not \<^verbatim>\<open>2020\<close>.
\<close>

theorem year_field_of_vol_12_2020:
  "extract_citation_components ''Vol. 12 (2020)'' ''year'' = Some ''20'' \<and>
   extract_citation_components ''Vol. 12 (2020)'' ''year'' \<noteq> Some ''2020''"
  by code_simp

subsection \<open>The five fields of a constructed citation\<close>

text \<open>
  C2. The claim: for a citation built from a known author, a four-digit year, a
  double-quoted title, a journal between asterisks and a URL, the extraction returns
  exactly these five fields, each equal to its piece of the input. On the citation
  \<^verbatim>\<open>Smith (2020). "Deep Learning". *Nature*. https://example.org/paper\<close> the code
  returns the title, the journal and the URL, but the year \<^verbatim>\<open>20\<close> and no author
  (the author pattern is built from the stored year and looks for \<^verbatim>\<open>(20)\<close>).
\<close>

theorem constructed_citation_fields:
  \<open>extract_citation_components
      ''Smith (2020). "Deep Learning". *Nature*. https://example.org/paper'' ''year''
      = Some ''20'' \<and>
   extract_citation_components
      ''Smith (2020). "Deep Learning". *Nature*. https://example.org/paper'' ''author''
      = None \<and>
   extract_citation_components
      ''Smith (2020). "Deep Learning". *Nature*. https://example.org/paper'' ''title''
      = Some ''Deep Learning'' \<and>
   extract_citation_components
      ''Smith (2020). "Deep Learning". *Nature*. https://example.org/paper'' ''journal''
      = Some ''Nature'' \<and>
   extract_citation_components
      ''Smith (2020). "Deep Learning". *Nature*. https://example.org/paper'' ''url''
      = Some ''https://example.org/paper''\<close>
  by code_simp

subsection \<open>Required components and the source requirement\<close>

lemma required_Chicago:
  "get_required_components ''Chicago'' = [''author'', ''title'', ''year'']"
  by code_simp

lemma journal_url_components:
  \<open>has_component (extract_citation_components
      ''Smith (20) "Deep Learning" *Nature* https://example.org/p 2020'') ''author''\<close>
  \<open>has_component (extract_citation_components
      ''Smith (20) "Deep Learning" *Nature* https://example.org/p 2020'') ''title''\<close>
  \<open>has_component (extract_citation_components
      ''Smith (20) "Deep Learning" *Nature* https://example.org/p 2020'') ''year''\<close>
  \<open>has_component (extract_citation_components
      ''Smith (20) "Deep Learning" *Nature* https://example.org/p 2020'') ''journal''\<close>
  \<open>has_component (extract_citation_components
      ''Smith (20) "Deep Learning" *Nature* https://example.org/p 2020'') ''url''\<close>
  \<open>\<not> has_component (extract_citation_components
      ''Smith (20) "Deep Learning" *Nature* https://example.org/p 2020'') ''doi''\<close>
  \<open>extract_citation_components
      ''Smith (20) "Deep Learning" *Nature* https://example.org/p 2020'' ''url''
     = Some ''https://example.org/p''\<close>
  by code_simp+

text \<open>
  C3. The claim: for APA, MLA and Chicago the required components are author, title, year
  and source, and a journal or a URL among the extracted components satisfies the source
  requirement (its share of the score and a strength, not a \<^verbatim>\<open>Missing source\<close> issue).
  The code looks the upper-cased style up in a table whose third key is \<^verbatim>\<open>Chicago\<close>, so
  the style \<^verbatim>\<open>Chicago\<close> gets the three common components only; and it tests the key
  \<^verbatim>\<open>source\<close>, which the extraction never writes, so that a citation with a journal and a
  URL is still reported with \<^verbatim>\<open>Missing source\<close>, whatever the URL check answers, and
  scores \<open>4/5\<close> under APA when the URL is unreachable: three of the four required
  components and the URL bonus.
\<close>

theorem source_requirement_never_met:
  \<open>get_required_components ''Chicago'' = [''author'', ''title'', ''year''] \<and>
   has_component (extract_citation_components
      ''Smith (20) "Deep Learning" *Nature* https://example.org/p 2020'') ''journal'' \<and>
   has_component (extract_citation_components
      ''Smith (20) "Deep Learning" *Nature* https://example.org/p 2020'') ''url'' \<and>
   ''Missing source'' \<in> set (issues (validate_single_citation check_url
      ''Smith (20) "Deep Learning" *Nature* https://example.org/p 2020'' ''APA'' 1)) \<and>
   ''Has source'' \<notin> set (strengths (validate_single_citation check_url
      ''Smith (20) "Deep Learning" *Nature* https://example.org/p 2020'' ''APA'' 1)) \<and>
   quality_score (validate_single_citation connection_failed
      ''Smith (20) "Deep Learning" *Nature* https://example.org/p 2020'' ''APA'' 1) = 4 / 5\<close>
  by (simp add: validate_single_citation_def validate_components_def required_APA
      required_Chicago journal_url_components not_has_source connection_failed_def Let_def)

subsection \<open>The validity threshold under APA\<close>

lemma author_title_year_components:
  \<open>has_component (extract_citation_components ''Smith (20) "Title" 2020'') ''author''\<close>
  \<open>has_component (extract_citation_components ''Smith (20) "Title" 2020'') ''title''\<close>
  \<open>has_component (extract_citation_components ''Smith (20) "Title" 2020'') ''year''\<close>
  \<open>\<not> has_component (extract_citation_components ''Smith (20) "Title" 2020'') ''doi''\<close>
  \<open>\<not> has_component (extract_citation_components ''Smith (20) "Title" 2020'') ''url''\<close>
  by code_simp+

lemma author_year_components:
  \<open>has_component (extract_citation_components ''Smith (20) 2020'') ''author''\<close>
  \<open>\<not> has_component (extract_citation_components ''Smith (20) 2020'') ''title''\<close>
  \<open>has_component (extract_citation_components ''Smith (20) 2020'') ''year''\<close>
  \<open>\<not> has_component (extract_citation_components ''Smith (20) 2020'') ''doi''\<close>
  \<open>\<not> has_component (extract_citation_components ''Smith (20) 2020'') ''url''\<close>
  by code_simp+

text \<open>
  C4, as the claim states it: under APA a citation with author and year only scores about
  \<open>0.67\<close>. On \<^verbatim>\<open>Smith (20) 2020\<close>, whose components are author and year, the score is
  \<open>1/2\<close>: two of the four required components.
\<close>

theorem author_year_score_counterexample:
  \<open>quality_score (validate_single_citation connection_failed ''Smith (20) 2020'' ''APA'' 1)
     = 1 / 2 \<and>
   \<not> (0.66 \<le> quality_score
          (validate_single_citation connection_failed ''Smith (20) 2020'' ''APA'' 1) \<and>
      quality_score
          (validate_single_citation connection_failed ''Smith (20) 2020'' ''APA'' 1) \<le> 0.68)\<close>
  by (simp add: validate_single_citation_def validate_components_def required_APA
      not_has_source author_year_components Let_def)

text \<open>
  C4, amended: under APA a citation whose components are author, title and year, without
  DOI and URL, has quality score \<open>0.75\<close> and is valid; a citation with author and year,
  without title, DOI and URL, has quality score \<open>0.5\<close> and is not valid.
\<close>

theorem apa_threshold_boundary:
  "(has_component (extract_citation_components citation) ''author'' \<and>
    has_component (extract_citation_components citation) ''title'' \<and>
    has_component (extract_citation_components citation) ''year'' \<and>
    \<not> has_component (extract_citation_components citation) ''doi'' \<and>
    \<not> has_component (extract_citation_components citation) ''url''
    \<longrightarrow> quality_score (validate_single_citation check_url citation ''APA'' n) = 3 / 4 \<and>
        is_valid (validate_single_citation check_url citation ''APA'' n)) \<and>
   (has_component (extract_citation_components citation) ''author'' \<and>
    \<not> has_component (extract_citation_components citation) ''title'' \<and>
    has_component (extract_citation_components citation) ''year'' \<and>
    \<not> has_component (extract_citation_components citation) ''doi'' \<and>
    \<not> has_component (extract_citation_components citation) ''url''
    \<longrightarrow> quality_score (validate_single_citation check_url citation ''APA'' n) = 1 / 2 \<and>
        \<not> is_valid (validate_single_citation check_url citation ''APA'' n))"
  by (simp add: validate_single_citation_def validate_components_def required_APA
      not_has_source Let_def)

theorem apa_threshold_boundary_witness:
  \<open>has_component (extract_citation_components ''Smith (20) "Title" 2020'') ''author'' \<and>
   has_component (extract_citation_components ''Smith (20) "Title" 2020'') ''title'' \<and>
   has_component (extract_citation_components ''Smith (20) "Title" 2020'') ''year'' \<and>
   \<not> has_component (extract_citation_components ''Smith (20) "Title" 2020'') ''doi'' \<and>
   \<not> has_component (extract_citation_components ''Smith (20) "Title" 2020'') ''url'' \<and>
   quality_score
     (validate_single_citation connection_failed ''Smith (20) "Title" 2020'' ''APA'' 1)
     = 3 / 4 \<and>
   is_valid (validate_single_citation connection_failed ''Smith (20) "Title" 2020'' ''APA'' 1) \<and>
   has_component (extract_citation_components ''Smith (20) 2020'') ''author'' \<and>
   \<not> has_component (extract_citation_components ''Smith (20) 2020'') ''title'' \<and>
   has_component (extract_citation_components ''Smith (20) 2020'') ''year'' \<and>
   \<not> has_component (extract_citation_components ''Smith (20) 2020'') ''doi'' \<and>
   \<not> has_component (extract_citation_components ''Smith (20) 2020'') ''url'' \<and>
   quality_score (validate_single_citation connection_failed ''Smith (20) 2020'' ''APA'' 1)
     = 1 / 2 \<and>
   \<not> is_valid (validate_single_citation connection_failed ''Smith (20) 2020'' ''APA'' 1)\<close>
  using apa_threshold_boundary [of \<open>''Smith (20) "Title" 2020''\<close> connection_failed 1]
        apa_threshold_boundary [of \<open>''Smith (20) 2020''\<close> connection_failed 1]
        author_title_year_components author_year_components
  by simp

section \<open>Properties of the fact checker\<close>

subsection \<open>The overlap ratio\<close>

lemma py_in_sublist: "py_in sub s = sublist sub s"
  by (induction s) (simp_all add: sublist_Cons_right)

lemma length_filter_remdups:
  "length (filter P (remdups xs)) = card {x \<in> set xs. P x}"
proof -
  have "distinct (filter P (remdups xs))" by simp
  then have "length (filter P (remdups xs)) = card (set (filter P (remdups xs)))"
    by (simp only: distinct_card)
  then show ?thesis by simp
qed

text \<open>
  C5, as the claim states it: the overlap ratio counts the claim tokens that are tokens of
  the lower-cased source text. For the claim \<^verbatim>\<open>cat\<close> and the source \<^verbatim>\<open>concatenate\<close>
  the code computes \<open>1\<close>, since \<^verbatim>\<open>cat\<close> occurs inside the source text, while the
  ratio over token sets is \<open>0\<close>.
\<close>

theorem overlap_ratio_counterexample:
  "keyword_overlap ''cat'' ''concatenate'' = 1 \<and>
   overlap_ratio_spec ''cat'' ''concatenate'' = 0 \<and>
   keyword_overlap ''cat'' ''concatenate'' \<noteq> overlap_ratio_spec ''cat'' ''concatenate''"
  by (simp add: keyword_overlap_def overlap_ratio_spec_def lower_def lower_char_def
      findall_words_def is_word_def)

text \<open>
  C5, amended: the overlap ratio is the number of distinct lower-case word tokens of the
  claim that occur as a substring of the lower-cased source text, divided by the number
  of distinct claim tokens, and \<open>0\<close> when the claim has no tokens.
\<close>

theorem keyword_overlap_substrings:
  "keyword_overlap claim_text sources =
     (if set (findall_words (lower claim_text)) = {} then 0
      else real (card {kw \<in> set (findall_words (lower claim_text)). sublist kw (lower sources)})
           / real (card (set (findall_words (lower claim_text)))))"
  by (simp add: keyword_overlap_def Let_def length_filter_remdups length_remdups_card_conv
      py_in_sublist)

subsection \<open>The three buckets\<close>

lemma overlap_seven_tenths:
  "keyword_overlap ''a b c d e f g h i j'' ''A B C D E F G'' = 7 / 10"
  by (simp add: keyword_overlap_def lower_def lower_char_def findall_words_def is_word_def)

lemma overlap_two_fifths:
  "keyword_overlap ''Cats chase mice very often'' ''mice, cats'' = 2 / 5"
  by (simp add: keyword_overlap_def lower_def lower_char_def findall_words_def is_word_def)

lemma overlap_zero: "keyword_overlap ''zebra'' [] = 0"
  by (simp add: keyword_overlap_def lower_def lower_char_def findall_words_def is_word_def)

text \<open>
  C6. Status and confidence of a verification are a fixed function of the overlap ratio
  \<open>r\<close> of the claim and the sources, with three buckets: \<open>r \<ge> 0.7\<close> gives
  \<^verbatim>\<open>strongly_supported\<close> and \<open>0.9\<close>, \<open>0.4 \<le> r < 0.7\<close> gives \<^verbatim>\<open>partially_supported\<close>
  and \<open>0.6\<close>, \<open>r < 0.4\<close> gives \<^verbatim>\<open>insufficient_evidence\<close> and \<open>0.3\<close>; the chain of tests
  gives \<open>0.9\<close> at \<open>0.7\<close>, \<open>0.6\<close> at \<open>0.4\<close> and \<open>0.3\<close> at \<open>0.39\<close>.
\<close>

theorem verification_buckets:
  "(keyword_overlap c s \<ge> 0.7 \<longrightarrow>
      verification_status (verify_claim_against_sources c s n) = ''strongly_supported'' \<and>
      confidence_score (verify_claim_against_sources c s n) = 0.9) \<and>
   (0.4 \<le> keyword_overlap c s \<and> keyword_overlap c s < 0.7 \<longrightarrow>
      verification_status (verify_claim_against_sources c s n) = ''partially_supported'' \<and>
      confidence_score (verify_claim_against_sources c s n) = 0.6) \<and>
   (keyword_overlap c s < 0.4 \<longrightarrow>
      verification_status (verify_claim_against_sources c s n) = ''insufficient_evidence'' \<and>
      confidence_score (verify_claim_against_sources c s n) = 0.3) \<and>
   verification_status (verify_claim_against_sources c s n)
     = fst (classify_overlap (keyword_overlap c s)) \<and>
   confidence_score (verify_claim_against_sources c s n)
     = fst (snd (classify_overlap (keyword_overlap c s))) \<and>
   fst (classify_overlap 0.7) = ''strongly_supported'' \<and>
   fst (snd (classify_overlap 0.7)) = 0.9 \<and>
   fst (classify_overlap 0.4) = ''partially_supported'' \<and>
   fst (snd (classify_overlap 0.4)) = 0.6 \<and>
   fst (classify_overlap 0.39) = ''insufficient_evidence'' \<and>
   fst (snd (classify_overlap 0.39)) = 0.3"
  by (simp add: verify_claim_against_sources_def classify_overlap_def)

theorem verification_buckets_witness:
  "keyword_overlap ''a b c d e f g h i j'' ''A B C D E F G'' \<ge> 0.7 \<and>
   verification_status
     (verify_claim_against_sources ''a b c d e f g h i j'' ''A B C D E F G'' 1)
     = ''strongly_supported'' \<and>
   confidence_score
     (verify_claim_against_sources ''a b c d e f g h i j'' ''A B C D E F G'' 1) = 0.9 \<and>
   0.4 \<le> keyword_overlap ''Cats chase mice very often'' ''mice, cats'' \<and>
   keyword_overlap ''Cats chase mice very often'' ''mice, cats'' < 0.7 \<and>
   verification_status
     (verify_claim_against_sources ''Cats chase mice very often'' ''mice, cats'' 2)
     = ''partially_supported'' \<and>
   confidence_score
     (verify_claim_against_sources ''Cats chase mice very often'' ''mice, cats'' 2) = 0.6 \<and>
   keyword_overlap ''zebra'' [] < 0.4 \<and>
   verification_status (verify_claim_against_sources ''zebra'' [] 3)
     = ''insufficient_evidence'' \<and>
   confidence_score (verify_claim_against_sources ''zebra'' [] 3) = 0.3"
  using verification_buckets [of "''a b c d e f g h i j''" "''A B C D E F G''" 1]
        verification_buckets [of "''Cats chase mice very often''" "''mice, cats''" 2]
        verification_buckets [of "''zebra''" "[]" 3]
  by (simp add: overlap_seven_tenths overlap_two_fifths overlap_zero)

subsection \<open>Confidence values and the overall reliability\<close>











subsection \<open>The overall reliability in binary floating point\<close>

















section \<open>Properties of the aggregates\<close>

text \<open>
  C9. The overall quality of an empty list of citation records is \<open>0\<close>, and the overall
  reliability that \<^const>\<open>fact_checker\<close> reports for an empty list of claims is \<open>0\<close>; both
  are ordinary results, no error value is involved.
\<close>

theorem empty_batch_aggregates:
  "calculate_overall_quality [] = 0 \<and>
   overall_reliability (fact_checker [] sources) = 0 \<and>
   verification_results (fact_checker [] sources) = [] \<and>
   total_claims (fact_checker [] sources) = 0"
  by (simp add: calculate_overall_quality_def fact_checker_def)

section \<open>Properties of the search tool\<close>

subsection \<open>Relevance of a hit for a query without terms\<close>

text \<open>
  C7. The claim: the relevance function is total, and for a query without terms it
  returns the fallback \<open>0.5\<close>. \<^verbatim>\<open>_calculate_relevance\<close> of the search tool divides by
  the number of query terms without a test: for the empty query, and for a query of
  blanks, it raises \<^verbatim>\<open>ZeroDivisionError\<close> for every hit, and \<^verbatim>\<open>advanced_web_search\<close>
  reports the failure of the whole search. The method of the same name in \<^verbatim>\<open>main.py\<close>
  has the test and returns \<open>0.5\<close>.
\<close>

theorem relevance_of_empty_query:
  "calculate_relevance [] result = Inl ZeroDivisionError \<and>
   calculate_relevance ''   '' result = Inl ZeroDivisionError \<and>
   advanced_web_search [] 5 [result] = Inl ZeroDivisionError \<and>
   AdvancedWebSearchTool_calculate_relevance [] result = Inr 0.5"
  by (simp add: calculate_relevance_def AdvancedWebSearchTool_calculate_relevance_def
      advanced_web_search_def slice_to_def lower_def lower_char_def split_ws_def is_space_def)

subsection \<open>Ranking\<close>


end
